theory Spec2Isabelle
  imports Main "HOL-Library.Sublist"
begin

section \<open>Python strings\<close>

text \<open>
  A Python \<open>str\<close> is a sequence of Unicode code points and \<open>len\<close> counts code points,
  so a string is a list of code point numbers. \<open>str\<close> turns an ASCII literal of the
  source into that representation.
\<close>

type_synonym pystr = "nat list"

definition str :: "string \<Rightarrow> pystr" where
  "str s = map of_char s"

text \<open>
  \<open>str.strip()\<close> without arguments removes leading and trailing characters for which
  CPython's \<open>Py_UNICODE_ISSPACE\<close> holds. The table is the one of CPython 3:
  U+0009..U+000D, U+001C..U+0020, U+0085, U+00A0, U+1680, U+2000..U+200A, U+2028,
  U+2029, U+202F, U+205F, U+3000.
\<close>

definition isspace :: "nat \<Rightarrow> bool" where
  "isspace c =
     ((9 \<le> c \<and> c \<le> 13) \<or> (28 \<le> c \<and> c \<le> 32) \<or> c = 133 \<or> c = 160 \<or> c = 5760 \<or>
      (8192 \<le> c \<and> c \<le> 8202) \<or> c = 8232 \<or> c = 8233 \<or> c = 8239 \<or> c = 8287 \<or>
      c = 12288)"

definition lstrip :: "pystr \<Rightarrow> pystr" where
  "lstrip s = dropWhile isspace s"

definition rstrip :: "pystr \<Rightarrow> pystr" where
  "rstrip s = rev (dropWhile isspace (rev s))"

definition strip :: "pystr \<Rightarrow> pystr" where
  "strip s = rstrip (lstrip s)"

section \<open>Variant A: the FastAPI service\<close>

text \<open>
  \<open>todos\<close> is a module-level list of dicts with the keys \<open>id\<close>, \<open>task\<close> and
  \<open>completed\<close> (the shape of \<open>TodoResponse\<close>). Every handler takes the list and returns
  its result together with the list as the call leaves it, so that what a failing call
  does to the store is part of the model.
\<close>

record todo =
  id' :: int
  task :: pystr
  completed :: bool

record TodoCreate =
  create_task :: pystr

record TodoUpdate =
  update_task :: "pystr option"
  update_completed :: "bool option"

record health =
  status :: pystr
  todo_count :: nat
  version :: pystr

datatype error = ValidationError | NotFound

text \<open>The \<open>Field\<close> constraints of the two request models: \<open>min_length=1, max_length=200\<close>.\<close>

definition TodoCreate_valid :: "TodoCreate \<Rightarrow> bool" where
  "TodoCreate_valid todo_in =
     (1 \<le> length (create_task todo_in) \<and> length (create_task todo_in) \<le> 200)"

definition TodoUpdate_valid :: "TodoUpdate \<Rightarrow> bool" where
  "TodoUpdate_valid todo_update =
     (case update_task todo_update of
        None \<Rightarrow> True
      | Some s \<Rightarrow> 1 \<le> length s \<and> length s \<le> 200)"

definition get_next_id :: "todo list \<Rightarrow> int" where
  "get_next_id todos = int (length todos) + 1"

definition find_todo_by_id :: "todo list \<Rightarrow> int \<Rightarrow> todo option" where
  "find_todo_by_id todos todo_id = find (\<lambda>t. id' t = todo_id) todos"

definition get_todos :: "todo list \<Rightarrow> todo list \<times> todo list" where
  "get_todos todos = (todos, todos)"

definition create_todo :: "todo list \<Rightarrow> TodoCreate \<Rightarrow> todo \<times> todo list" where
  "create_todo todos todo_in =
     (let new_todo = \<lparr>id' = get_next_id todos, task = create_task todo_in, completed = False\<rparr>
      in (new_todo, todos @ [new_todo]))"

definition get_todo :: "todo list \<Rightarrow> int \<Rightarrow> (error + todo) \<times> todo list" where
  "get_todo todos todo_id =
     (case find_todo_by_id todos todo_id of
        None \<Rightarrow> (Inl NotFound, todos)
      | Some t \<Rightarrow> (Inr t, todos))"

text \<open>
  \<open>find_todo_by_id\<close> returns the list's own dict, the first one with the id, and
  \<open>update_todo\<close> assigns to its keys: the list changes at that position.
  \<open>assign_first\<close> is that write.
\<close>

fun assign_first :: "int \<Rightarrow> todo \<Rightarrow> todo list \<Rightarrow> todo list" where
  "assign_first todo_id new [] = []"
| "assign_first todo_id new (t # ts) =
     (if id' t = todo_id then new # ts else t # assign_first todo_id new ts)"

definition update_todo :: "todo list \<Rightarrow> int \<Rightarrow> TodoUpdate \<Rightarrow> (error + todo) \<times> todo list" where
  "update_todo todos todo_id todo_update =
     (case find_todo_by_id todos todo_id of
        None \<Rightarrow> (Inl NotFound, todos)
      | Some t \<Rightarrow>
          (let t1 = (case update_task todo_update of
                       None \<Rightarrow> t
                     | Some s \<Rightarrow> t\<lparr>task := s\<rparr>);
               t2 = (case update_completed todo_update of
                       None \<Rightarrow> t1
                     | Some c \<Rightarrow> t1\<lparr>completed := c\<rparr>)
           in (Inr t2, assign_first todo_id t2 todos)))"

text \<open>\<open>todos.remove(todo)\<close> deletes the first element equal to \<open>todo\<close>.\<close>

definition delete_todo :: "todo list \<Rightarrow> int \<Rightarrow> (error + unit) \<times> todo list" where
  "delete_todo todos todo_id =
     (case find_todo_by_id todos todo_id of
        None \<Rightarrow> (Inl NotFound, todos)
      | Some t \<Rightarrow> (Inr (), remove1 t todos))"

definition health_check :: "todo list \<Rightarrow> health \<times> todo list" where
  "health_check todos =
     (\<lparr>status = str ''healthy'', todo_count = length todos, version = str ''1.0.0''\<rparr>, todos)"

text \<open>
  FastAPI validates the request body against the handler's model before it calls the
  handler, and answers 422 without calling it when the body is invalid. The two
  endpoints with a body are modelled with that check in front of the handler. A body
  whose \<open>task\<close> is missing or is not a string is rejected in the same way and is not
  part of the model: a \<open>TodoCreate\<close> always carries a string.
\<close>

definition post_todos :: "todo list \<Rightarrow> TodoCreate \<Rightarrow> (error + todo) \<times> todo list" where
  "post_todos todos todo_in =
     (if TodoCreate_valid todo_in
      then (case create_todo todos todo_in of (new_todo, todos') \<Rightarrow> (Inr new_todo, todos'))
      else (Inl ValidationError, todos))"

definition put_todo :: "todo list \<Rightarrow> int \<Rightarrow> TodoUpdate \<Rightarrow> (error + todo) \<times> todo list" where
  "put_todo todos todo_id todo_update =
     (if TodoUpdate_valid todo_update
      then update_todo todos todo_id todo_update
      else (Inl ValidationError, todos))"

text \<open>
  The requests of the service, and the store after each: the state the module-level
  list is left in when the response (or the error) has been produced.
\<close>

datatype request =
    ListTodos
  | Create TodoCreate
  | Get int
  | Update int TodoUpdate
  | Delete int
  | Health

fun handle :: "todo list \<Rightarrow> request \<Rightarrow> todo list" where
  "handle todos ListTodos = snd (get_todos todos)"
| "handle todos (Create todo_in) = snd (post_todos todos todo_in)"
| "handle todos (Get todo_id) = snd (get_todo todos todo_id)"
| "handle todos (Update todo_id todo_update) = snd (put_todo todos todo_id todo_update)"
| "handle todos (Delete todo_id) = snd (delete_todo todos todo_id)"
| "handle todos Health = snd (health_check todos)"

definition run :: "request list \<Rightarrow> todo list" where
  "run reqs = foldl handle [] reqs"

section \<open>Variant B: the Flask service\<close>

text \<open>
  A parsed JSON value as Python holds it. An object is the association list of a dict
  (keys distinct; \<open>map_of\<close> is the lookup). Numbers with a fraction or an exponent
  (Python floats) are left out: \<open>add_todo\<close> treats them as it treats \<open>JInt\<close>.
\<close>

datatype json =
    JNull
  | JBool bool
  | JInt int
  | JStr pystr
  | JArr "json list"
  | JObj "(pystr \<times> json) list"

type_synonym pydict = "(pystr \<times> json) list"

text \<open>
  What reaches \<open>add_todo\<close>: a request whose content type is not JSON
  (\<open>request.is_json\<close> is false), one whose body does not parse (\<open>get_json\<close> raises
  werkzeug's \<open>BadRequest\<close>), or a parsed body.
\<close>

datatype flask_request = NonJson | BadJson | JsonBody json

datatype exn = BadRequest | TypeError | KeyError | AttributeError

record flask_state =
  todos :: "pydict list"
  next_id :: int

definition initial :: flask_state where
  "initial = \<lparr>todos = [], next_id = 1\<rparr>"

text \<open>A handler returns \<open>(jsonify(body), status)\<close> or raises.\<close>

type_synonym response = "exn + json \<times> nat"

fun truthy :: "json \<Rightarrow> bool" where
  "truthy JNull = False"
| "truthy (JBool b) = b"
| "truthy (JInt n) = (n \<noteq> 0)"
| "truthy (JStr s) = (s \<noteq> [])"
| "truthy (JArr xs) = (xs \<noteq> [])"
| "truthy (JObj kvs) = (kvs \<noteq> [])"

text \<open>\<open>key in data\<close>: a key of a dict, an element of a list, a substring of a string.\<close>

fun contains :: "json \<Rightarrow> pystr \<Rightarrow> exn + bool" where
  "contains (JObj kvs) key = Inr (map_of kvs key \<noteq> None)"
| "contains (JArr xs) key = Inr (JStr key \<in> set xs)"
| "contains (JStr s) key = Inr (sublist key s)"
| "contains _ key = Inl TypeError"

text \<open>\<open>data[key]\<close> with a string key.\<close>

fun getitem :: "json \<Rightarrow> pystr \<Rightarrow> exn + json" where
  "getitem (JObj kvs) key = (case map_of kvs key of None \<Rightarrow> Inl KeyError | Some v \<Rightarrow> Inr v)"
| "getitem _ key = Inl TypeError"

text \<open>\<open>value.strip()\<close>: only a string has the method.\<close>

fun strip_of :: "json \<Rightarrow> exn + pystr" where
  "strip_of (JStr s) = Inr (strip s)"
| "strip_of _ = Inl AttributeError"

definition error_body :: "string \<Rightarrow> json" where
  "error_body msg = JObj [(str ''error'', JStr (str msg))]"

definition get_todos_flask :: "flask_state \<Rightarrow> response \<times> flask_state" where
  "get_todos_flask st = (Inr (JArr (map JObj (todos st)), 200), st)"

definition add_todo :: "flask_state \<Rightarrow> flask_request \<Rightarrow> response \<times> flask_state" where
  "add_todo st req =
     (case req of
        NonJson \<Rightarrow> (Inr (error_body ''Request must be JSON'', 400), st)
      | BadJson \<Rightarrow> (Inl BadRequest, st)
      | JsonBody data \<Rightarrow>
          if \<not> truthy data then (Inr (error_body ''Task field is required'', 400), st)
          else
            (case contains data (str ''task'') of
               Inl e \<Rightarrow> (Inl e, st)
             | Inr present \<Rightarrow>
                 if \<not> present then (Inr (error_body ''Task field is required'', 400), st)
                 else
                   (case getitem data (str ''task'') of
                      Inl e \<Rightarrow> (Inl e, st)
                    | Inr v \<Rightarrow>
                        (case strip_of v of
                           Inl e \<Rightarrow> (Inl e, st)
                         | Inr task' \<Rightarrow>
                             if task' = [] then (Inr (error_body ''Task cannot be empty'', 400), st)
                             else
                               (let new_todo = [(str ''id'', JInt (next_id st)),
                                                (str ''task'', JStr task')]
                                in (Inr (JObj new_todo, 201),
                                    st\<lparr>todos := todos st @ [new_todo],
                                       next_id := next_id st + 1\<rparr>))))))"

definition home :: "flask_state \<Rightarrow> response \<times> flask_state" where
  "home st =
     (Inr (JObj [(str ''message'', JStr (str ''Todo API'')),
                 (str ''endpoints'',
                  JObj [(str ''GET /todos'', JStr (str ''Get all todos'')),
                        (str ''POST /todos'',
                         JStr (str ''Add a new todo (requires JSON with 'task' field)''))])],
           200), st)"

datatype flask_call = GetTodos | AddTodo flask_request | Home

fun flask_handle :: "flask_state \<Rightarrow> flask_call \<Rightarrow> response \<times> flask_state" where
  "flask_handle st GetTodos = get_todos_flask st"
| "flask_handle st (AddTodo req) = add_todo st req"
| "flask_handle st Home = home st"

text \<open>The state after a sequence of calls, and the responses they got, in order.\<close>

fun flask_run :: "flask_state \<Rightarrow> flask_call list \<Rightarrow> flask_state" where
  "flask_run st [] = st"
| "flask_run st (c # cs) = flask_run (snd (flask_handle st c)) cs"

fun flask_trace :: "flask_state \<Rightarrow> flask_call list \<Rightarrow> response list" where
  "flask_trace st [] = []"
| "flask_trace st (c # cs) = fst (flask_handle st c) # flask_trace (snd (flask_handle st c)) cs"

text \<open>
  The \<open>id\<close> entries of the stored dicts, and the bodies of the 201 responses of a
  trace: the items created, in order.
\<close>

definition ids_of :: "pydict list \<Rightarrow> json option list" where
  "ids_of ds = map (\<lambda>d. map_of d (str ''id'')) ds"

fun created :: "response list \<Rightarrow> json list" where
  "created [] = []"
| "created (Inr (body, code) # rs) = (if code = 201 then body # created rs else created rs)"
| "created (Inl e # rs) = created rs"

section \<open>Properties of variant A\<close>

text \<open>
  C10: for every store, the health check returns status "healthy", version "1.0.0" and a
  todo_count equal to the number of items in the store, and leaves the store unchanged.
\<close>

theorem health_check_reports_count:
  "health_check store =
     (\<lparr>status = str ''healthy'', todo_count = length store, version = str ''1.0.0''\<rparr>, store)
   \<and> status (fst (health_check store)) = str ''healthy''
   \<and> version (fst (health_check store)) = str ''1.0.0''
   \<and> todo_count (fst (health_check store)) = length store
   \<and> snd (health_check store) = store"
  by (simp add: health_check_def)

subsection \<open>Lookup by id\<close>

lemma find_todo_by_id_None:
  "find_todo_by_id store todo_id = None \<longleftrightarrow> todo_id \<notin> id' ` set store"
  by (auto simp: find_todo_by_id_def find_None_iff)

lemma find_todo_by_id_Some:
  "find_todo_by_id store todo_id = Some t \<Longrightarrow> t \<in> set store \<and> id' t = todo_id"
  by (auto simp: find_todo_by_id_def find_Some_iff)

text \<open>The item found is the first with the id: nothing before it has that id.\<close>

lemma find_todo_by_id_split:
  "find_todo_by_id store todo_id = Some t \<Longrightarrow>
     \<exists>xs ys. store = xs @ t # ys \<and> todo_id \<notin> id' ` set xs"
proof (induction store)
  case Nil
  then show ?case by (simp add: find_todo_by_id_def)
next
  case (Cons a store)
  show ?case
  proof (cases "id' a = todo_id")
    case True
    with Cons.prems have "a = t" by (simp add: find_todo_by_id_def)
    then have "a # store = [] @ t # store \<and> todo_id \<notin> id' ` set []" by simp
    then show ?thesis by blast
  next
    case False
    with Cons.prems have "find_todo_by_id store todo_id = Some t"
      by (simp add: find_todo_by_id_def)
    from Cons.IH [OF this] obtain xs ys where "store = xs @ t # ys" "todo_id \<notin> id' ` set xs"
      by blast
    with False have "a # store = (a # xs) @ t # ys \<and> todo_id \<notin> id' ` set (a # xs)"
      by auto
    then show ?thesis by blast
  qed
qed

lemma find_todo_by_id_append:
  "todo_id \<notin> id' ` set xs \<Longrightarrow> id' t = todo_id \<Longrightarrow>
     find_todo_by_id (xs @ t # ys) todo_id = Some t"
  by (induction xs) (auto simp: find_todo_by_id_def)

lemma assign_first_append:
  "todo_id \<notin> id' ` set xs \<Longrightarrow> id' t = todo_id \<Longrightarrow>
     assign_first todo_id new (xs @ t # ys) = xs @ new # ys"
  by (induction xs) auto

lemma remove1_first:
  "todo_id \<notin> id' ` set xs \<Longrightarrow> id' t = todo_id \<Longrightarrow> remove1 t (xs @ t # ys) = xs @ ys"
  by (induction xs) auto

subsection \<open>Absent ids\<close>

text \<open>
  C5: for every store and every id that no item of the store has, \<open>get_todo\<close>,
  \<open>update_todo\<close> and \<open>delete_todo\<close> fail with NotFound (404) and leave the store as it
  is. The update is any \<open>TodoUpdate\<close>; through the endpoint, where the body is validated
  first, the same holds for every body that passes validation.
\<close>

theorem absent_id_not_found:
  assumes "todo_id \<notin> id' ` set store"
  shows "get_todo store todo_id = (Inl NotFound, store)
       \<and> update_todo store todo_id todo_update = (Inl NotFound, store)
       \<and> (TodoUpdate_valid todo_update \<longrightarrow>
            put_todo store todo_id todo_update = (Inl NotFound, store))
       \<and> delete_todo store todo_id = (Inl NotFound, store)"
proof -
  from assms have "find_todo_by_id store todo_id = None"
    by (simp add: find_todo_by_id_None)
  then show ?thesis
    by (simp add: get_todo_def update_todo_def put_todo_def delete_todo_def)
qed

theorem absent_id_not_found_witness:
  "999 \<notin> id' ` set [\<lparr>id' = 1, task = str ''buy milk'', completed = False\<rparr>]
   \<and> TodoUpdate_valid \<lparr>update_task = None, update_completed = Some True\<rparr>
   \<and> get_todo [\<lparr>id' = 1, task = str ''buy milk'', completed = False\<rparr>] 999
       = (Inl NotFound, [\<lparr>id' = 1, task = str ''buy milk'', completed = False\<rparr>])
   \<and> put_todo [\<lparr>id' = 1, task = str ''buy milk'', completed = False\<rparr>] 999
         \<lparr>update_task = None, update_completed = Some True\<rparr>
       = (Inl NotFound, [\<lparr>id' = 1, task = str ''buy milk'', completed = False\<rparr>])
   \<and> delete_todo [\<lparr>id' = 1, task = str ''buy milk'', completed = False\<rparr>] 999
       = (Inl NotFound, [\<lparr>id' = 1, task = str ''buy milk'', completed = False\<rparr>])"
  using absent_id_not_found [of 999 "[\<lparr>id' = 1, task = str ''buy milk'', completed = False\<rparr>]"
      "\<lparr>update_task = None, update_completed = Some True\<rparr>"]
  by (simp add: TodoUpdate_valid_def)

subsection \<open>Partial update\<close>

lemma find_todo_by_id_distinct:
  "distinct (map id' store) \<Longrightarrow> t \<in> set store \<Longrightarrow> find_todo_by_id store (id' t) = Some t"
  by (induction store) (auto simp: find_todo_by_id_def)

lemma update_todo_found:
  assumes "find_todo_by_id store todo_id = Some t"
  shows "\<exists>xs ys t'. store = xs @ t # ys \<and> todo_id \<notin> id' ` set xs
           \<and> t' = t\<lparr>task := (case update_task todo_update of None \<Rightarrow> task t | Some s \<Rightarrow> s),
                    completed := (case update_completed todo_update of
                                    None \<Rightarrow> completed t | Some c \<Rightarrow> c)\<rparr>
           \<and> update_todo store todo_id todo_update = (Inr t', xs @ t' # ys)"
proof -
  from find_todo_by_id_split [OF assms] obtain xs ys
    where s: "store = xs @ t # ys" and n: "todo_id \<notin> id' ` set xs" by blast
  from find_todo_by_id_Some [OF assms] have i: "id' t = todo_id" by simp
  let ?t' = "t\<lparr>task := (case update_task todo_update of None \<Rightarrow> task t | Some s \<Rightarrow> s),
                completed := (case update_completed todo_update of
                                None \<Rightarrow> completed t | Some c \<Rightarrow> c)\<rparr>"
  have "update_todo store todo_id todo_update = (Inr ?t', xs @ ?t' # ys)"
    using assms n i unfolding s
    by (simp add: update_todo_def assign_first_append Let_def split: option.splits)
  with s n show ?thesis by blast
qed

text \<open>
  The item an id designates is the one \<open>find_todo_by_id\<close> returns, the first with the
  id. An update that supplies only \<open>completed = true\<close> returns that item with
  \<open>completed\<close> true and \<open>task\<close> and \<open>id\<close> as they were, and the store holds it in the
  place of the old one. In general the updated item keeps its id, and keeps each of
  \<open>task\<close> and \<open>completed\<close> that the update omits; the items before and after it are
  untouched.
\<close>

lemma update_completed_only:
  assumes "find_todo_by_id store todo_id = Some t"
  shows "put_todo store todo_id \<lparr>update_task = None, update_completed = Some True\<rparr>
           = update_todo store todo_id \<lparr>update_task = None, update_completed = Some True\<rparr>
       \<and> fst (update_todo store todo_id \<lparr>update_task = None, update_completed = Some True\<rparr>)
           = Inr (t\<lparr>completed := True\<rparr>)
       \<and> find_todo_by_id
            (snd (update_todo store todo_id \<lparr>update_task = None, update_completed = Some True\<rparr>))
            todo_id
           = Some (t\<lparr>completed := True\<rparr>)
       \<and> completed (t\<lparr>completed := True\<rparr>) = True
       \<and> task (t\<lparr>completed := True\<rparr>) = task t
       \<and> id' (t\<lparr>completed := True\<rparr>) = id' t
       \<and> (\<exists>xs ys t'. store = xs @ t # ys \<and> todo_id \<notin> id' ` set xs
             \<and> update_todo store todo_id todo_update = (Inr t', xs @ t' # ys)
             \<and> id' t' = id' t
             \<and> task t' = (case update_task todo_update of None \<Rightarrow> task t | Some s \<Rightarrow> s)
             \<and> completed t' =
                 (case update_completed todo_update of None \<Rightarrow> completed t | Some c \<Rightarrow> c))"
proof -
  let ?u = "\<lparr>update_task = None, update_completed = Some True\<rparr>"
  from update_todo_found [OF assms, of ?u] obtain xs ys
    where s: "store = xs @ t # ys" and n: "todo_id \<notin> id' ` set xs"
      and u: "update_todo store todo_id ?u = (Inr (t\<lparr>completed := True\<rparr>), xs @ t\<lparr>completed := True\<rparr> # ys)"
    by auto
  from find_todo_by_id_Some [OF assms] have i: "id' t = todo_id" by simp
  have a: "put_todo store todo_id ?u = update_todo store todo_id ?u"
    by (simp add: put_todo_def TodoUpdate_valid_def)
  have b: "fst (update_todo store todo_id ?u) = Inr (t\<lparr>completed := True\<rparr>)"
    using u by simp
  have c: "find_todo_by_id (snd (update_todo store todo_id ?u)) todo_id = Some (t\<lparr>completed := True\<rparr>)"
    using u n i by (simp add: find_todo_by_id_append)
  from update_todo_found [OF assms, of todo_update] obtain xs' ys' t'
    where s': "store = xs' @ t # ys'" and n': "todo_id \<notin> id' ` set xs'"
      and t': "t' = t\<lparr>task := (case update_task todo_update of None \<Rightarrow> task t | Some s \<Rightarrow> s),
                    completed := (case update_completed todo_update of
                                    None \<Rightarrow> completed t | Some c \<Rightarrow> c)\<rparr>"
      and u': "update_todo store todo_id todo_update = (Inr t', xs' @ t' # ys')"
    by blast
  from t' have f: "id' t' = id' t
      \<and> task t' = (case update_task todo_update of None \<Rightarrow> task t | Some s \<Rightarrow> s)
      \<and> completed t' =
            (case update_completed todo_update of None \<Rightarrow> completed t | Some c \<Rightarrow> c)"
    by simp
  from s' n' u' f
  have d: "\<exists>xs ys t'. store = xs @ t # ys \<and> todo_id \<notin> id' ` set xs
             \<and> update_todo store todo_id todo_update = (Inr t', xs @ t' # ys)
             \<and> id' t' = id' t
             \<and> task t' = (case update_task todo_update of None \<Rightarrow> task t | Some s \<Rightarrow> s)
             \<and> completed t' =
                 (case update_completed todo_update of None \<Rightarrow> completed t | Some c \<Rightarrow> c)"
    by blast
  from a b c d show ?thesis by simp
qed


lemma update_completed_only_example:
  "find_todo_by_id [\<lparr>id' = 1, task = str ''buy milk'', completed = False\<rparr>,
                    \<lparr>id' = 2, task = str ''walk dog'', completed = False\<rparr>] 2
     = Some \<lparr>id' = 2, task = str ''walk dog'', completed = False\<rparr>
   \<and> update_todo [\<lparr>id' = 1, task = str ''buy milk'', completed = False\<rparr>,
                    \<lparr>id' = 2, task = str ''walk dog'', completed = False\<rparr>] 2
         \<lparr>update_task = None, update_completed = Some True\<rparr>
     = (Inr \<lparr>id' = 2, task = str ''walk dog'', completed = True\<rparr>,
        [\<lparr>id' = 1, task = str ''buy milk'', completed = False\<rparr>,
         \<lparr>id' = 2, task = str ''walk dog'', completed = True\<rparr>])"
  using update_completed_only [of
      "[\<lparr>id' = 1, task = str ''buy milk'', completed = False\<rparr>,
        \<lparr>id' = 2, task = str ''walk dog'', completed = False\<rparr>]" 2
      "\<lparr>id' = 2, task = str ''walk dog'', completed = False\<rparr>"]
  by (simp add: find_todo_by_id_def update_todo_def Let_def)

subsection \<open>The count-based id scheme\<close>

lemma length_str: "length (str s) = length s"
  by (simp add: str_def)

lemma post_todos_valid:
  "TodoCreate_valid todo_in \<Longrightarrow>
     post_todos store todo_in
       = (Inr \<lparr>id' = int (length store) + 1, task = create_task todo_in, completed = False\<rparr>,
          store @ [\<lparr>id' = int (length store) + 1, task = create_task todo_in,
                     completed = False\<rparr>])"
  by (simp add: post_todos_def create_todo_def get_next_id_def Let_def)

lemma post_todos_invalid:
  "\<not> TodoCreate_valid todo_in \<Longrightarrow> post_todos store todo_in = (Inl ValidationError, store)"
  by (simp add: post_todos_def)

lemma run_snoc: "run (reqs @ [r]) = handle (run reqs) r"
  by (simp add: run_def)

lemma run_three_delete_second:
  "run [Create \<lparr>create_task = str ''a''\<rparr>, Create \<lparr>create_task = str ''b''\<rparr>,
        Create \<lparr>create_task = str ''c''\<rparr>, Delete 2]
     = [\<lparr>id' = 1, task = str ''a'', completed = False\<rparr>,
        \<lparr>id' = 3, task = str ''c'', completed = False\<rparr>]"
  by (simp add: run_def post_todos_valid TodoCreate_valid_def length_str
      delete_todo_def find_todo_by_id_def)

text \<open>
  C2: in variant A, where the next id is the number of items plus one, creating three
  items, deleting the second (id 2) and creating a fourth gives the new item the id 3,
  which an item already in the store has.
\<close>

theorem count_based_id_collision:
  "run [Create \<lparr>create_task = str ''a''\<rparr>, Create \<lparr>create_task = str ''b''\<rparr>,
        Create \<lparr>create_task = str ''c''\<rparr>, Delete 2]
     = [\<lparr>id' = 1, task = str ''a'', completed = False\<rparr>,
        \<lparr>id' = 3, task = str ''c'', completed = False\<rparr>]
   \<and> post_todos [\<lparr>id' = 1, task = str ''a'', completed = False\<rparr>,
                 \<lparr>id' = 3, task = str ''c'', completed = False\<rparr>]
         \<lparr>create_task = str ''d''\<rparr>
     = (Inr \<lparr>id' = 3, task = str ''d'', completed = False\<rparr>,
        [\<lparr>id' = 1, task = str ''a'', completed = False\<rparr>,
         \<lparr>id' = 3, task = str ''c'', completed = False\<rparr>,
         \<lparr>id' = 3, task = str ''d'', completed = False\<rparr>])
   \<and> id' \<lparr>id' = 3, task = str ''d'', completed = False\<rparr>
       \<in> id' ` set [\<lparr>id' = 1, task = str ''a'', completed = False\<rparr>,
                    \<lparr>id' = 3, task = str ''c'', completed = False\<rparr>]"
proof -
  have "post_todos [\<lparr>id' = 1, task = str ''a'', completed = False\<rparr>,
                 \<lparr>id' = 3, task = str ''c'', completed = False\<rparr>]
         \<lparr>create_task = str ''d''\<rparr>
     = (Inr \<lparr>id' = 3, task = str ''d'', completed = False\<rparr>,
        [\<lparr>id' = 1, task = str ''a'', completed = False\<rparr>,
         \<lparr>id' = 3, task = str ''c'', completed = False\<rparr>,
         \<lparr>id' = 3, task = str ''d'', completed = False\<rparr>])"
    by (simp add: post_todos_valid TodoCreate_valid_def length_str)
  with run_three_delete_second show ?thesis by simp
qed

lemma run_collision:
  "run [Create \<lparr>create_task = str ''a''\<rparr>, Create \<lparr>create_task = str ''b''\<rparr>,
        Create \<lparr>create_task = str ''c''\<rparr>, Delete 2, Create \<lparr>create_task = str ''d''\<rparr>]
     = [\<lparr>id' = 1, task = str ''a'', completed = False\<rparr>,
        \<lparr>id' = 3, task = str ''c'', completed = False\<rparr>,
        \<lparr>id' = 3, task = str ''d'', completed = False\<rparr>]"
  using run_snoc [of "[Create \<lparr>create_task = str ''a''\<rparr>, Create \<lparr>create_task = str ''b''\<rparr>,
        Create \<lparr>create_task = str ''c''\<rparr>, Delete 2]" "Create \<lparr>create_task = str ''d''\<rparr>"]
  by (simp add: run_three_delete_second post_todos_valid TodoCreate_valid_def length_str)

text \<open>
  C1: the ids of a reachable store are pairwise distinct. Variant B keeps this
  (\<open>flask_ids_distinct\<close> below); variant A does not: the store reached by the five
  requests of C2 has the ids 1, 3, 3.
\<close>

theorem reachable_store_with_duplicate_id:
  "map id' (run [Create \<lparr>create_task = str ''a''\<rparr>, Create \<lparr>create_task = str ''b''\<rparr>,
                 Create \<lparr>create_task = str ''c''\<rparr>, Delete 2,
                 Create \<lparr>create_task = str ''d''\<rparr>]) = [1, 3, 3]
   \<and> \<not> distinct (map id' (run [Create \<lparr>create_task = str ''a''\<rparr>,
                                 Create \<lparr>create_task = str ''b''\<rparr>,
                                 Create \<lparr>create_task = str ''c''\<rparr>, Delete 2,
                                 Create \<lparr>create_task = str ''d''\<rparr>]))"
  by (simp add: run_collision)

text \<open>
  C7: after a successful delete of an id, no listed item has the id and a get on it
  fails with NotFound. On the reachable store with the ids 1, 3, 3 the delete of 3
  removes the first of the two items only: the list still has an item with id 3, and
  the get returns it. On a store with pairwise distinct ids the claim holds
  (\<open>delete_todo_distinct\<close>).
\<close>

theorem delete_leaves_duplicate:
  "3 \<in> id' ` set (run [Create \<lparr>create_task = str ''a''\<rparr>, Create \<lparr>create_task = str ''b''\<rparr>,
                       Create \<lparr>create_task = str ''c''\<rparr>, Delete 2,
                       Create \<lparr>create_task = str ''d''\<rparr>])
   \<and> delete_todo (run [Create \<lparr>create_task = str ''a''\<rparr>, Create \<lparr>create_task = str ''b''\<rparr>,
                       Create \<lparr>create_task = str ''c''\<rparr>, Delete 2,
                       Create \<lparr>create_task = str ''d''\<rparr>]) 3
     = (Inr (), [\<lparr>id' = 1, task = str ''a'', completed = False\<rparr>,
                 \<lparr>id' = 3, task = str ''d'', completed = False\<rparr>])
   \<and> 3 \<in> id' ` set (fst (get_todos [\<lparr>id' = 1, task = str ''a'', completed = False\<rparr>,
                                     \<lparr>id' = 3, task = str ''d'', completed = False\<rparr>]))
   \<and> get_todo [\<lparr>id' = 1, task = str ''a'', completed = False\<rparr>,
               \<lparr>id' = 3, task = str ''d'', completed = False\<rparr>] 3
     = (Inr \<lparr>id' = 3, task = str ''d'', completed = False\<rparr>,
        [\<lparr>id' = 1, task = str ''a'', completed = False\<rparr>,
         \<lparr>id' = 3, task = str ''d'', completed = False\<rparr>])"
  unfolding run_collision
  by (simp add: delete_todo_def get_todo_def get_todos_def find_todo_by_id_def)

text \<open>With pairwise distinct ids, delete does remove the id.\<close>

lemma delete_todo_distinct:
  assumes "distinct (map id' store)" and "find_todo_by_id store todo_id = Some t"
  shows "fst (delete_todo store todo_id) = Inr ()
       \<and> todo_id \<notin> id' ` set (fst (get_todos (snd (delete_todo store todo_id))))
       \<and> get_todo (snd (delete_todo store todo_id)) todo_id
           = (Inl NotFound, snd (delete_todo store todo_id))"
proof -
  from find_todo_by_id_split [OF assms(2)] obtain xs ys
    where s: "store = xs @ t # ys" and n: "todo_id \<notin> id' ` set xs" by blast
  from find_todo_by_id_Some [OF assms(2)] have i: "id' t = todo_id" by simp
  have d: "delete_todo store todo_id = (Inr (), xs @ ys)"
    using assms(2) n i by (simp add: delete_todo_def s remove1_first)
  from assms(1) s i n have "todo_id \<notin> id' ` set (xs @ ys)" by auto
  then have "find_todo_by_id (xs @ ys) todo_id = None"
    by (simp add: find_todo_by_id_None)
  with d \<open>todo_id \<notin> id' ` set (xs @ ys)\<close> show ?thesis
    by (simp add: get_todos_def get_todo_def)
qed

subsection \<open>Update on a duplicated id\<close>

text \<open>With pairwise distinct ids every item is the one its id designates.\<close>

lemma update_completed_only_distinct:
  assumes "distinct (map id' store)" and "t \<in> set store"
  shows "fst (update_todo store (id' t) \<lparr>update_task = None, update_completed = Some True\<rparr>)
           = Inr (t\<lparr>completed := True\<rparr>)
       \<and> find_todo_by_id
            (snd (update_todo store (id' t) \<lparr>update_task = None, update_completed = Some True\<rparr>))
            (id' t)
           = Some (t\<lparr>completed := True\<rparr>)"
  using update_completed_only [OF find_todo_by_id_distinct [OF assms]] by simp

text \<open>
  C6: for every item present in the store, an update that supplies only
  \<open>completed = true\<close> returns and stores that item with \<open>completed\<close> true and its
  \<open>task\<close> and \<open>id\<close> unchanged. On the reachable store with the ids 1, 3, 3 the item
  with task "d" is present, but the update on its id 3 finds the item with task "c":
  it returns and stores that one with \<open>completed\<close> true, and the item with task "d"
  stays as it was. On a store with pairwise distinct ids the claim holds
  (\<open>update_completed_only_distinct\<close>), and fields the update omits are never written
  (\<open>update_completed_only\<close>).
\<close>

theorem update_misses_shadowed_item:
  "\<lparr>id' = 3, task = str ''d'', completed = False\<rparr>
     \<in> set (run [Create \<lparr>create_task = str ''a''\<rparr>, Create \<lparr>create_task = str ''b''\<rparr>,
                  Create \<lparr>create_task = str ''c''\<rparr>, Delete 2,
                  Create \<lparr>create_task = str ''d''\<rparr>])
   \<and> put_todo (run [Create \<lparr>create_task = str ''a''\<rparr>, Create \<lparr>create_task = str ''b''\<rparr>,
                    Create \<lparr>create_task = str ''c''\<rparr>, Delete 2,
                    Create \<lparr>create_task = str ''d''\<rparr>])
        (id' \<lparr>id' = 3, task = str ''d'', completed = False\<rparr>)
        \<lparr>update_task = None, update_completed = Some True\<rparr>
     = (Inr \<lparr>id' = 3, task = str ''c'', completed = True\<rparr>,
        [\<lparr>id' = 1, task = str ''a'', completed = False\<rparr>,
         \<lparr>id' = 3, task = str ''c'', completed = True\<rparr>,
         \<lparr>id' = 3, task = str ''d'', completed = False\<rparr>])
   \<and> task \<lparr>id' = 3, task = str ''c'', completed = True\<rparr>
       \<noteq> task \<lparr>id' = 3, task = str ''d'', completed = False\<rparr>
   \<and> \<lparr>id' = 3, task = str ''d'', completed = True\<rparr>
       \<notin> set [\<lparr>id' = 1, task = str ''a'', completed = False\<rparr>,
                \<lparr>id' = 3, task = str ''c'', completed = True\<rparr>,
                \<lparr>id' = 3, task = str ''d'', completed = False\<rparr>]"
proof -
  have n: "str ''c'' \<noteq> str ''d''" by (simp add: str_def)
  show ?thesis
    unfolding run_collision using n
    by (simp add: put_todo_def TodoUpdate_valid_def update_todo_def find_todo_by_id_def Let_def)
qed

section \<open>Properties of variant B\<close>

subsection \<open>One call\<close>

lemma strip_all_space: "list_all isspace s \<Longrightarrow> strip s = []"
proof -
  assume "list_all isspace s"
  then have d: "dropWhile isspace s = []"
    by (induction s) auto
  show ?thesis unfolding strip_def lstrip_def rstrip_def d by simp
qed

lemma strip_buy_milk: "strip (str ''buy milk'') = str ''buy milk''"
  by (simp add: strip_def lstrip_def rstrip_def str_def isspace_def)

lemma truthy_obj: "map_of kvs key = Some v \<Longrightarrow> truthy (JObj kvs)"
  by (cases kvs) auto

lemma add_todo_string_task:
  assumes "map_of kvs (str ''task'') = Some (JStr s)"
  shows "add_todo st (JsonBody (JObj kvs)) =
           (if strip s = [] then (Inr (error_body ''Task cannot be empty'', 400), st)
            else (Inr (JObj [(str ''id'', JInt (next_id st)), (str ''task'', JStr (strip s))], 201),
                  st\<lparr>todos := todos st @ [[(str ''id'', JInt (next_id st)),
                                            (str ''task'', JStr (strip s))]],
                     next_id := next_id st + 1\<rparr>))"
  using assms truthy_obj [OF assms] by (simp add: add_todo_def Let_def)

lemma add_todo_cases:
  "(\<exists>s. s \<noteq> []
        \<and> add_todo st req =
            (Inr (JObj [(str ''id'', JInt (next_id st)), (str ''task'', JStr s)], 201),
             st\<lparr>todos := todos st @ [[(str ''id'', JInt (next_id st)), (str ''task'', JStr s)]],
                next_id := next_id st + 1\<rparr>))
   \<or> (snd (add_todo st req) = st
        \<and> ((\<exists>e. fst (add_todo st req) = Inl e) \<or> (\<exists>body. fst (add_todo st req) = Inr (body, 400))))"
  by (auto simp: add_todo_def Let_def split: flask_request.splits sum.splits)

lemma flask_handle_cases:
  "(\<exists>s. s \<noteq> []
        \<and> flask_handle st c =
            (Inr (JObj [(str ''id'', JInt (next_id st)), (str ''task'', JStr s)], 201),
             st\<lparr>todos := todos st @ [[(str ''id'', JInt (next_id st)), (str ''task'', JStr s)]],
                next_id := next_id st + 1\<rparr>))
   \<or> (snd (flask_handle st c) = st
        \<and> ((\<exists>e. fst (flask_handle st c) = Inl e)
           \<or> (\<exists>body code. fst (flask_handle st c) = Inr (body, code) \<and> code \<noteq> 201)))"
proof (cases c)
  case GetTodos
  then show ?thesis by (simp add: get_todos_flask_def)
next
  case (AddTodo req)
  with add_todo_cases [of st req] show ?thesis by auto
next
  case Home
  then show ?thesis by (simp add: home_def)
qed

subsection \<open>The ids of a reachable store\<close>

text \<open>
  Every stored id is an integer from 1 up to the counter, the counter excluded, and no
  two items share one.
\<close>

lemma flask_inv_step:
  assumes "set (ids_of (todos st)) \<subseteq> (\<lambda>i. Some (JInt i)) ` {1..<next_id st}"
    and "distinct (ids_of (todos st))"
    and "1 \<le> next_id st"
  shows "set (ids_of (todos (snd (flask_handle st c))))
           \<subseteq> (\<lambda>i. Some (JInt i)) ` {1..<next_id (snd (flask_handle st c))}
       \<and> distinct (ids_of (todos (snd (flask_handle st c))))
       \<and> next_id st \<le> next_id (snd (flask_handle st c))"
  using flask_handle_cases [of st c] assms
  by (elim disjE exE conjE) (auto simp: ids_of_def)


lemma flask_run_inv:
  assumes "set (ids_of (todos st)) \<subseteq> (\<lambda>i. Some (JInt i)) ` {1..<next_id st}"
    and "distinct (ids_of (todos st))"
    and "1 \<le> next_id st"
  shows "set (ids_of (todos (flask_run st calls)))
           \<subseteq> (\<lambda>i. Some (JInt i)) ` {1..<next_id (flask_run st calls)}
       \<and> distinct (ids_of (todos (flask_run st calls)))
       \<and> 1 \<le> next_id (flask_run st calls)"
  using assms
proof (induction calls arbitrary: st)
  case Nil
  then show ?case by simp
next
  case (Cons c calls)
  from flask_inv_step [OF Cons.prems, of c]
  have "set (ids_of (todos (snd (flask_handle st c))))
           \<subseteq> (\<lambda>i. Some (JInt i)) ` {1..<next_id (snd (flask_handle st c))}"
    and "distinct (ids_of (todos (snd (flask_handle st c))))"
    and "1 \<le> next_id (snd (flask_handle st c))"
    using Cons.prems(3) by auto
  from Cons.IH [OF this] show ?case by simp
qed

lemma flask_ids_distinct:
  "distinct (ids_of (todos (flask_run initial calls)))
   \<and> set (ids_of (todos (flask_run initial calls)))
        \<subseteq> (\<lambda>i. Some (JInt i)) ` {1..<next_id (flask_run initial calls)}"
  using flask_run_inv [of initial calls] by (simp add: initial_def ids_of_def)

lemma flask_next_id_fresh:
  "Some (JInt (next_id (flask_run initial calls))) \<notin> set (ids_of (todos (flask_run initial calls)))"
  using flask_ids_distinct [of calls] by auto

subsection \<open>The id counter\<close>

lemma flask_trace_ids:
  "next_id (flask_run st calls) = next_id st + int (length (created (flask_trace st calls)))
   \<and> map (\<lambda>body. getitem body (str ''id'')) (created (flask_trace st calls))
       = map (\<lambda>i. Inr (JInt i))
           [next_id st .. next_id st + int (length (created (flask_trace st calls))) - 1]"
proof (induction calls arbitrary: st)
  case Nil
  then show ?case by simp
next
  case (Cons c calls)
  let ?st' = "snd (flask_handle st c)"
  let ?n = "length (created (flask_trace ?st' calls))"
  note IH = Cons.IH [of ?st']
  from flask_handle_cases [of st c]
  consider (new) s where "flask_handle st c =
            (Inr (JObj [(str ''id'', JInt (next_id st)), (str ''task'', JStr s)], 201),
             st\<lparr>todos := todos st @ [[(str ''id'', JInt (next_id st)), (str ''task'', JStr s)]],
                next_id := next_id st + 1\<rparr>)"
    | (exn) e where "snd (flask_handle st c) = st" "fst (flask_handle st c) = Inl e"
    | (other) body code where "snd (flask_handle st c) = st"
        "fst (flask_handle st c) = Inr (body, code)" "code \<noteq> 201"
    by blast
  then show ?case
  proof cases
    case new
    then have n: "next_id ?st' = next_id st + 1" by simp
    have u: "[next_id st .. next_id st + int (Suc ?n) - 1]
               = next_id st # [next_id st + 1 .. next_id st + 1 + int ?n - 1]"
      by (simp add: upto_rec1 [of "next_id st"] add.commute add.left_commute)
    have c: "created (flask_trace st (c # calls))
               = JObj [(str ''id'', JInt (next_id st)), (str ''task'', JStr s)]
                   # created (flask_trace ?st' calls)"
      using new by simp
    show ?thesis
      unfolding c using IH n u by simp
  next
    case exn
    with IH show ?thesis by simp
  next
    case other
    with IH show ?thesis by simp
  qed
qed

text \<open>
  C9: in variant B the counter starts at 1; a call that creates an item (a 201) gives
  it the counter's value as id and adds one to the counter, and every other call
  leaves the state as it is. So for any sequence of calls from the initial state, the
  ids of the created items are 1, 2, ..., n in this order, n the number of creations,
  the counter ends at n + 1, and no id is given twice.
\<close>

theorem counter_ids_sequential:
  "next_id initial = 1
   \<and> next_id (flask_run initial calls)
       = 1 + int (length (created (flask_trace initial calls)))
   \<and> map (\<lambda>body. getitem body (str ''id'')) (created (flask_trace initial calls))
       = map (\<lambda>i. Inr (JInt i)) [1 .. int (length (created (flask_trace initial calls)))]
   \<and> distinct (map (\<lambda>body. getitem body (str ''id'')) (created (flask_trace initial calls)))
   \<and> (case fst (flask_handle st c) of
         Inl e \<Rightarrow> snd (flask_handle st c) = st
       | Inr (body, code) \<Rightarrow>
           if code = 201
           then getitem body (str ''id'') = Inr (JInt (next_id st))
              \<and> next_id (snd (flask_handle st c)) = next_id st + 1
           else snd (flask_handle st c) = st)"
proof -
  have i: "next_id initial = 1" by (simp add: initial_def)
  from flask_trace_ids [of initial calls] i
  have r: "next_id (flask_run initial calls)
             = 1 + int (length (created (flask_trace initial calls)))"
    and m: "map (\<lambda>body. getitem body (str ''id'')) (created (flask_trace initial calls))
       = map (\<lambda>i. Inr (JInt i)) [1 .. int (length (created (flask_trace initial calls)))]"
    by simp_all
  have d: "distinct (map (\<lambda>body. getitem body (str ''id''))
                        (created (flask_trace initial calls)))"
    unfolding m by (simp add: distinct_map inj_on_def)
  from flask_handle_cases [of st c]
  have s: "(case fst (flask_handle st c) of
         Inl e \<Rightarrow> snd (flask_handle st c) = st
       | Inr (body, code) \<Rightarrow>
           if code = 201
           then getitem body (str ''id'') = Inr (JInt (next_id st))
              \<and> next_id (snd (flask_handle st c)) = next_id st + 1
           else snd (flask_handle st c) = st)"
    by (elim disjE exE conjE) simp_all
  from i r m d s show ?thesis by blast
qed

theorem counter_ids_sequential_witness:
  "map (\<lambda>body. getitem body (str ''id''))
     (created (flask_trace initial
        [AddTodo (JsonBody (JObj [(str ''task'', JStr (str ''buy milk''))])),
         AddTodo NonJson,
         GetTodos,
         AddTodo (JsonBody (JObj [(str ''task'', JStr (str ''walk dog''))]))]))
     = [Inr (JInt 1), Inr (JInt 2)]
   \<and> next_id (flask_run initial
        [AddTodo (JsonBody (JObj [(str ''task'', JStr (str ''buy milk''))])),
         AddTodo NonJson,
         GetTodos,
         AddTodo (JsonBody (JObj [(str ''task'', JStr (str ''walk dog''))]))]) = 3
   \<and> snd (flask_handle initial (AddTodo NonJson)) = initial"
  using counter_ids_sequential [of
      "[AddTodo (JsonBody (JObj [(str ''task'', JStr (str ''buy milk''))])),
        AddTodo NonJson,
        GetTodos,
        AddTodo (JsonBody (JObj [(str ''task'', JStr (str ''walk dog''))]))]"
      initial "AddTodo NonJson"]
  by (simp add: add_todo_def get_todos_flask_def initial_def str_def strip_def lstrip_def
      rstrip_def isspace_def Let_def error_body_def upto_rec1)

section \<open>Failing calls\<close>

text \<open>
  C8: a call that fails leaves the state as it was. In variant A: a create that fails
  validation and a get, update or delete that fails with NotFound (or, for the update
  endpoint, fails validation) return the store unchanged. In variant B: an
  \<open>add_todo\<close> that does not answer 201 (a 400 response or an exception) leaves both the
  list and the counter unchanged.
\<close>

theorem failure_leaves_state:
  "(isl (fst (post_todos store todo_in)) \<longrightarrow> snd (post_todos store todo_in) = store)
   \<and> (isl (fst (get_todo store todo_id)) \<longrightarrow> snd (get_todo store todo_id) = store)
   \<and> (isl (fst (update_todo store todo_id todo_update)) \<longrightarrow>
        snd (update_todo store todo_id todo_update) = store)
   \<and> (isl (fst (put_todo store todo_id todo_update)) \<longrightarrow>
        snd (put_todo store todo_id todo_update) = store)
   \<and> (isl (fst (delete_todo store todo_id)) \<longrightarrow> snd (delete_todo store todo_id) = store)
   \<and> ((\<forall>body. fst (add_todo st req) \<noteq> Inr (body, 201)) \<longrightarrow>
        snd (add_todo st req) = st
        \<and> todos (snd (add_todo st req)) = todos st
        \<and> next_id (snd (add_todo st req)) = next_id st)"
proof -
  have a: "isl (fst (post_todos store todo_in)) \<longrightarrow> snd (post_todos store todo_in) = store"
    by (cases "TodoCreate_valid todo_in") (simp_all add: post_todos_valid post_todos_invalid)
  have b: "isl (fst (get_todo store todo_id)) \<longrightarrow> snd (get_todo store todo_id) = store"
    by (simp add: get_todo_def split: option.splits)
  have c: "isl (fst (update_todo store todo_id todo_update)) \<longrightarrow>
        snd (update_todo store todo_id todo_update) = store"
    by (simp add: update_todo_def Let_def split: option.splits)
  have d: "isl (fst (put_todo store todo_id todo_update)) \<longrightarrow>
        snd (put_todo store todo_id todo_update) = store"
    using c by (simp add: put_todo_def)
  have e: "isl (fst (delete_todo store todo_id)) \<longrightarrow> snd (delete_todo store todo_id) = store"
    by (simp add: delete_todo_def split: option.splits)
  have f: "(\<forall>body. fst (add_todo st req) \<noteq> Inr (body, 201)) \<longrightarrow>
        snd (add_todo st req) = st
        \<and> todos (snd (add_todo st req)) = todos st
        \<and> next_id (snd (add_todo st req)) = next_id st"
    using add_todo_cases [of st req] by auto
  from a b c d e f show ?thesis by blast
qed

theorem failure_leaves_state_witness:
  "isl (fst (post_todos [\<lparr>id' = 1, task = str ''buy milk'', completed = False\<rparr>]
               \<lparr>create_task = []\<rparr>))
   \<and> isl (fst (get_todo [\<lparr>id' = 1, task = str ''buy milk'', completed = False\<rparr>] 999))
   \<and> isl (fst (update_todo [\<lparr>id' = 1, task = str ''buy milk'', completed = False\<rparr>] 999
                 \<lparr>update_task = None, update_completed = Some True\<rparr>))
   \<and> isl (fst (put_todo [\<lparr>id' = 1, task = str ''buy milk'', completed = False\<rparr>] 999
                 \<lparr>update_task = None, update_completed = Some True\<rparr>))
   \<and> isl (fst (delete_todo [\<lparr>id' = 1, task = str ''buy milk'', completed = False\<rparr>] 999))
   \<and> (\<forall>body. fst (add_todo \<lparr>todos = [], next_id = 1\<rparr>
                      (JsonBody (JObj [(str ''task'', JStr (str ''  ''))])))
               \<noteq> Inr (body, 201))
   \<and> snd (post_todos [\<lparr>id' = 1, task = str ''buy milk'', completed = False\<rparr>]
            \<lparr>create_task = []\<rparr>)
       = [\<lparr>id' = 1, task = str ''buy milk'', completed = False\<rparr>]
   \<and> snd (delete_todo [\<lparr>id' = 1, task = str ''buy milk'', completed = False\<rparr>] 999)
       = [\<lparr>id' = 1, task = str ''buy milk'', completed = False\<rparr>]
   \<and> snd (add_todo \<lparr>todos = [], next_id = 1\<rparr>
            (JsonBody (JObj [(str ''task'', JStr (str ''  ''))])))
       = \<lparr>todos = [], next_id = 1\<rparr>"
  using failure_leaves_state [of "[\<lparr>id' = 1, task = str ''buy milk'', completed = False\<rparr>]"
      "\<lparr>create_task = []\<rparr>" 999 "\<lparr>update_task = None, update_completed = Some True\<rparr>"
      "\<lparr>todos = [], next_id = 1\<rparr>" "JsonBody (JObj [(str ''task'', JStr (str ''  ''))])"]
  by (simp add: post_todos_def TodoCreate_valid_def get_todo_def update_todo_def put_todo_def
      TodoUpdate_valid_def delete_todo_def find_todo_by_id_def add_todo_def strip_def
      lstrip_def rstrip_def isspace_def str_def error_body_def)

section \<open>Creation\<close>

text \<open>
  C3 as stated (both variants reject an empty or whitespace-only task and add nothing)
  fails in variant A: its only check is the length, 1 to 200, and a task of one space
  is created.
\<close>

theorem whitespace_task_accepted:
  "list_all isspace (str '' '')
   \<and> post_todos [] \<lparr>create_task = str '' ''\<rparr>
       = (Inr \<lparr>id' = 1, task = str '' '', completed = False\<rparr>,
          [\<lparr>id' = 1, task = str '' '', completed = False\<rparr>])
   \<and> fst (post_todos [] \<lparr>create_task = str '' ''\<rparr>) \<noteq> Inl ValidationError
   \<and> snd (post_todos [] \<lparr>create_task = str '' ''\<rparr>) \<noteq> []"
  by (simp add: post_todos_valid TodoCreate_valid_def str_def isspace_def)

text \<open>
  C3, amended: in variant B a create whose task is empty or consists only of whitespace
  is answered 400 "Task cannot be empty" and adds nothing. In variant A a create fails
  with a ValidationError and adds nothing when the task is empty or longer than 200
  characters; a whitespace-only task of 1 to 200 characters is accepted and stored.
\<close>

theorem blank_task_rejected:
  "(list_all isspace s \<and> map_of kvs (str ''task'') = Some (JStr s) \<longrightarrow>
      add_todo st (JsonBody (JObj kvs)) = (Inr (error_body ''Task cannot be empty'', 400), st))
   \<and> post_todos store \<lparr>create_task = []\<rparr> = (Inl ValidationError, store)
   \<and> (200 < length long \<longrightarrow>
        post_todos store \<lparr>create_task = long\<rparr> = (Inl ValidationError, store))
   \<and> (list_all isspace blank \<and> 1 \<le> length blank \<and> length blank \<le> 200 \<longrightarrow>
        post_todos store \<lparr>create_task = blank\<rparr>
          = (Inr \<lparr>id' = int (length store) + 1, task = blank, completed = False\<rparr>,
             store @ [\<lparr>id' = int (length store) + 1, task = blank, completed = False\<rparr>]))"
proof -
  have a: "list_all isspace s \<and> map_of kvs (str ''task'') = Some (JStr s) \<longrightarrow>
      add_todo st (JsonBody (JObj kvs)) = (Inr (error_body ''Task cannot be empty'', 400), st)"
    by (simp add: add_todo_string_task strip_all_space)
  have b: "post_todos store \<lparr>create_task = []\<rparr> = (Inl ValidationError, store)"
    by (simp add: post_todos_invalid TodoCreate_valid_def)
  have c: "200 < length long \<longrightarrow>
        post_todos store \<lparr>create_task = long\<rparr> = (Inl ValidationError, store)"
    by (simp add: post_todos_invalid TodoCreate_valid_def)
  have d: "list_all isspace blank \<and> 1 \<le> length blank \<and> length blank \<le> 200 \<longrightarrow>
        post_todos store \<lparr>create_task = blank\<rparr>
          = (Inr \<lparr>id' = int (length store) + 1, task = blank, completed = False\<rparr>,
             store @ [\<lparr>id' = int (length store) + 1, task = blank, completed = False\<rparr>])"
    by (simp add: post_todos_valid TodoCreate_valid_def)
  from a b c d show ?thesis by blast
qed

theorem blank_task_rejected_witness:
  "list_all isspace (str ''  '')
   \<and> map_of [(str ''task'', JStr (str ''  ''))] (str ''task'') = Some (JStr (str ''  ''))
   \<and> add_todo initial (JsonBody (JObj [(str ''task'', JStr (str ''  ''))]))
       = (Inr (error_body ''Task cannot be empty'', 400), initial)
   \<and> 200 < length (replicate 201 (97::nat))
   \<and> post_todos [] \<lparr>create_task = replicate 201 97\<rparr> = (Inl ValidationError, [])
   \<and> list_all isspace (str '' '') \<and> 1 \<le> length (str '' '') \<and> length (str '' '') \<le> 200
   \<and> post_todos [] \<lparr>create_task = str '' ''\<rparr>
       = (Inr \<lparr>id' = 1, task = str '' '', completed = False\<rparr>,
          [\<lparr>id' = 1, task = str '' '', completed = False\<rparr>])"
  using blank_task_rejected [where s = "str ''  ''"
      and kvs = "[(str ''task'', JStr (str ''  ''))]" and st = initial
      and long = "replicate 201 97" and store = "[]" and blank = "str '' ''"]
  by (simp add: str_def isspace_def)

text \<open>
  C4 as stated (in both variants the item created for "buy milk" has \<open>completed\<close> false
  and an id no stored item has) fails twice: the item of variant B has the keys
  \<open>id\<close> and \<open>task\<close> only, and in variant A, on the store reached by three creates and
  the delete of id 2, the new item gets the id 3 of a stored item.
\<close>

theorem buy_milk_claim_fails:
  "add_todo initial (JsonBody (JObj [(str ''task'', JStr (str ''buy milk''))]))
     = (Inr (JObj [(str ''id'', JInt 1), (str ''task'', JStr (str ''buy milk''))], 201),
        \<lparr>todos = [[(str ''id'', JInt 1), (str ''task'', JStr (str ''buy milk''))]],
           next_id = 2\<rparr>)
   \<and> map_of [(str ''id'', JInt 1), (str ''task'', JStr (str ''buy milk''))] (str ''completed'')
       \<noteq> Some (JBool False)
   \<and> fst (post_todos
            (run [Create \<lparr>create_task = str ''a''\<rparr>, Create \<lparr>create_task = str ''b''\<rparr>,
                  Create \<lparr>create_task = str ''c''\<rparr>, Delete 2])
            \<lparr>create_task = str ''buy milk''\<rparr>)
       = Inr \<lparr>id' = 3, task = str ''buy milk'', completed = False\<rparr>
   \<and> 3 \<in> id' ` set (run [Create \<lparr>create_task = str ''a''\<rparr>,
                           Create \<lparr>create_task = str ''b''\<rparr>,
                           Create \<lparr>create_task = str ''c''\<rparr>, Delete 2])"
proof -
  have a: "add_todo initial (JsonBody (JObj [(str ''task'', JStr (str ''buy milk''))]))
     = (Inr (JObj [(str ''id'', JInt 1), (str ''task'', JStr (str ''buy milk''))], 201),
        \<lparr>todos = [[(str ''id'', JInt 1), (str ''task'', JStr (str ''buy milk''))]],
           next_id = 2\<rparr>)"
    by (simp add: add_todo_string_task strip_buy_milk initial_def) (simp add: str_def)
  have b: "map_of [(str ''id'', JInt 1), (str ''task'', JStr (str ''buy milk''))]
             (str ''completed'') \<noteq> Some (JBool False)"
    by (simp add: str_def)
  have c: "fst (post_todos
            (run [Create \<lparr>create_task = str ''a''\<rparr>, Create \<lparr>create_task = str ''b''\<rparr>,
                  Create \<lparr>create_task = str ''c''\<rparr>, Delete 2])
            \<lparr>create_task = str ''buy milk''\<rparr>)
       = Inr \<lparr>id' = 3, task = str ''buy milk'', completed = False\<rparr>
   \<and> 3 \<in> id' ` set (run [Create \<lparr>create_task = str ''a''\<rparr>,
                           Create \<lparr>create_task = str ''b''\<rparr>,
                           Create \<lparr>create_task = str ''c''\<rparr>, Delete 2])"
    unfolding run_three_delete_second
    by (simp add: post_todos_valid TodoCreate_valid_def length_str)
  from a b c show ?thesis by blast
qed


text \<open>
  C4, amended: in variant A, on every store, a create with task "buy milk" succeeds and
  returns an item with that task, \<open>completed\<close> false and the id "number of items + 1",
  and the following list contains the item. In variant B, on every store reachable from
  the initial state, a create with task "buy milk" succeeds (201) and returns an item
  with exactly the keys \<open>id\<close> and \<open>task\<close>, that task, and the counter as id, which no
  stored item has; the following list ends with the item.
\<close>

theorem create_buy_milk:
  "post_todos store \<lparr>create_task = str ''buy milk''\<rparr>
     = (Inr \<lparr>id' = int (length store) + 1, task = str ''buy milk'', completed = False\<rparr>,
        store @ [\<lparr>id' = int (length store) + 1, task = str ''buy milk'', completed = False\<rparr>])
   \<and> \<lparr>id' = int (length store) + 1, task = str ''buy milk'', completed = False\<rparr>
       \<in> set (fst (get_todos (snd (post_todos store \<lparr>create_task = str ''buy milk''\<rparr>))))
   \<and> (map_of kvs (str ''task'') = Some (JStr (str ''buy milk'')) \<longrightarrow>
        add_todo (flask_run initial calls) (JsonBody (JObj kvs))
          = (Inr (JObj [(str ''id'', JInt (next_id (flask_run initial calls))),
                        (str ''task'', JStr (str ''buy milk''))], 201),
             (flask_run initial calls)
               \<lparr>todos := todos (flask_run initial calls)
                    @ [[(str ''id'', JInt (next_id (flask_run initial calls))),
                        (str ''task'', JStr (str ''buy milk''))]],
                next_id := next_id (flask_run initial calls) + 1\<rparr>)
        \<and> Some (JInt (next_id (flask_run initial calls)))
            \<notin> set (ids_of (todos (flask_run initial calls)))
        \<and> map (fst) [(str ''id'', JInt (next_id (flask_run initial calls))),
                       (str ''task'', JStr (str ''buy milk''))] = [str ''id'', str ''task'']
        \<and> fst (get_todos_flask (snd (add_todo (flask_run initial calls) (JsonBody (JObj kvs)))))
            = Inr (JArr (map JObj (todos (flask_run initial calls))
                         @ [JObj [(str ''id'', JInt (next_id (flask_run initial calls))),
                                  (str ''task'', JStr (str ''buy milk''))]]), 200))"
proof -
  have v: "TodoCreate_valid \<lparr>create_task = str ''buy milk''\<rparr>"
    by (simp add: TodoCreate_valid_def length_str)
  have a: "post_todos store \<lparr>create_task = str ''buy milk''\<rparr>
     = (Inr \<lparr>id' = int (length store) + 1, task = str ''buy milk'', completed = False\<rparr>,
        store @ [\<lparr>id' = int (length store) + 1, task = str ''buy milk'', completed = False\<rparr>])"
    using post_todos_valid [OF v, of store] by simp
  have b: "\<lparr>id' = int (length store) + 1, task = str ''buy milk'', completed = False\<rparr>
       \<in> set (fst (get_todos (snd (post_todos store \<lparr>create_task = str ''buy milk''\<rparr>))))"
    unfolding a by (simp add: get_todos_def)
  have n: "str ''buy milk'' \<noteq> []" by (simp add: str_def)
  have c: "map_of kvs (str ''task'') = Some (JStr (str ''buy milk'')) \<longrightarrow>
        add_todo (flask_run initial calls) (JsonBody (JObj kvs))
          = (Inr (JObj [(str ''id'', JInt (next_id (flask_run initial calls))),
                        (str ''task'', JStr (str ''buy milk''))], 201),
             (flask_run initial calls)
               \<lparr>todos := todos (flask_run initial calls)
                    @ [[(str ''id'', JInt (next_id (flask_run initial calls))),
                        (str ''task'', JStr (str ''buy milk''))]],
                next_id := next_id (flask_run initial calls) + 1\<rparr>)"
    using n by (simp add: add_todo_string_task strip_buy_milk)
  from a b c flask_next_id_fresh [of calls] show ?thesis
    by (simp add: get_todos_flask_def)
qed

theorem create_buy_milk_witness:
  "map_of [(str ''task'', JStr (str ''buy milk''))] (str ''task'') = Some (JStr (str ''buy milk''))
   \<and> flask_run initial [AddTodo (JsonBody (JObj [(str ''task'', JStr (str ''walk dog''))]))]
       = \<lparr>todos = [[(str ''id'', JInt 1), (str ''task'', JStr (str ''walk dog''))]],
          next_id = 2\<rparr>
   \<and> add_todo \<lparr>todos = [[(str ''id'', JInt 1), (str ''task'', JStr (str ''walk dog''))]],
                next_id = 2\<rparr>
         (JsonBody (JObj [(str ''task'', JStr (str ''buy milk''))]))
       = (Inr (JObj [(str ''id'', JInt 2), (str ''task'', JStr (str ''buy milk''))], 201),
          \<lparr>todos = [[(str ''id'', JInt 1), (str ''task'', JStr (str ''walk dog''))],
                    [(str ''id'', JInt 2), (str ''task'', JStr (str ''buy milk''))]],
             next_id = 3\<rparr>)
   \<and> Some (JInt 2)
       \<notin> set (ids_of [[(str ''id'', JInt 1), (str ''task'', JStr (str ''walk dog''))]])"
proof -
  have r: "flask_run initial [AddTodo (JsonBody (JObj [(str ''task'', JStr (str ''walk dog''))]))]
       = \<lparr>todos = [[(str ''id'', JInt 1), (str ''task'', JStr (str ''walk dog''))]],
          next_id = 2\<rparr>"
    by (simp add: add_todo_def initial_def str_def strip_def lstrip_def rstrip_def isspace_def
        Let_def)
  show ?thesis
    using create_buy_milk [where kvs = "[(str ''task'', JStr (str ''buy milk''))]"
        and calls = "[AddTodo (JsonBody (JObj [(str ''task'', JStr (str ''walk dog''))]))]"
        and store = "[]"]
    unfolding r by simp
qed

end
